theory Spec2Isabelle
  imports Complex_Main
begin

section \<open>Python values\<close>

text \<open>
  A Python \<open>str\<close> is a sequence of Unicode code points. The prompts of \<open>demo.py\<close> and the
  replies of the language model are not confined to one byte per character, so a string is
  a list of code points; \<open>u\<close> embeds an ASCII literal.
\<close>

type_synonym str = "nat list"

definition u :: "string \<Rightarrow> str" where
  "u s = map of_char s"

definition nl :: str where
  "nl = [10]"

text \<open>The code points for which \<open>str.isspace\<close> holds; \<open>str.strip()\<close> removes them at both ends.\<close>

definition whitespace :: "nat list" where
  "whitespace = [9, 10, 11, 12, 13, 28, 29, 30, 31, 32, 133, 160, 5760,
     8192, 8193, 8194, 8195, 8196, 8197, 8198, 8199, 8200, 8201, 8202,
     8232, 8233, 8239, 8287, 12288]"

definition isspace :: "nat \<Rightarrow> bool" where
  "isspace c = (c \<in> set whitespace)"

definition strip :: "str \<Rightarrow> str" where
  "strip s = rev (dropWhile isspace (rev (dropWhile isspace s)))"

definition startswith :: "str \<Rightarrow> str \<Rightarrow> bool" where
  "startswith s p = (take (length p) s = p)"

definition endswith :: "str \<Rightarrow> str \<Rightarrow> bool" where
  "endswith s p = (length p \<le> length s \<and> drop (length s - length p) s = p)"

text \<open>\<open>str(n)\<close> for an integer: its decimal digits, with a sign.\<close>

function str_nat :: "nat \<Rightarrow> str" where
  "str_nat n = (if n < 10 then [48 + n] else str_nat (n div 10) @ [48 + n mod 10])"
  by pat_completeness auto
termination
  by (relation "measure id") auto

declare str_nat.simps [simp del]

definition str_int :: "int \<Rightarrow> str" where
  "str_int i = (if i < 0 then 45 # str_nat (nat (- i)) else str_nat (nat i))"

text \<open>
  What \<open>json.loads\<close> produces: \<open>None\<close>, \<open>bool\<close>, \<open>int\<close>, \<open>float\<close>, \<open>str\<close>, \<open>list\<close> and
  \<open>dict\<close>. A float is kept as the value it denotes (\<open>Finite m e\<close> is \<open>m * 2 ^ e\<close>); the
  program never computes with one. A \<open>dict\<close> is the list of its items in insertion order.
\<close>

datatype float_val = NaN | Infinity bool | Finite int int

datatype json =
    JNull
  | JBool bool
  | JInt int
  | JFloat float_val
  | JStr str
  | JArr "json list"
  | JObj "(str \<times> json) list"

type_synonym pydict = "(str \<times> json) list"

text \<open>\<open>d.get(key)\<close> on a dict: the value, or \<open>None\<close> for a missing key.\<close>

definition dict_get :: "pydict \<Rightarrow> str \<Rightarrow> json" where
  "dict_get d k = (case map_of d k of None \<Rightarrow> JNull | Some v \<Rightarrow> v)"

text \<open>Python's truth value of an object, as \<open>if x\<close> and \<open>not x\<close> test it.\<close>

fun truthy :: "json \<Rightarrow> bool" where
  "truthy JNull = False"
| "truthy (JBool b) = b"
| "truthy (JInt i) = (i \<noteq> 0)"
| "truthy (JFloat NaN) = True"
| "truthy (JFloat (Infinity b)) = True"
| "truthy (JFloat (Finite m e)) = (m \<noteq> 0)"
| "truthy (JStr s) = (s \<noteq> [])"
| "truthy (JArr xs) = (xs \<noteq> [])"
| "truthy (JObj kvs) = (kvs \<noteq> [])"

text \<open>\<open>isinstance(v, list) and len(v) == n\<close>.\<close>

fun is_list_of_len :: "json \<Rightarrow> int \<Rightarrow> bool" where
  "is_list_of_len (JArr xs) n = (int (length xs) = n)"
| "is_list_of_len _ n = False"

section \<open>The outside world\<close>

text \<open>
  The request of \<open>client.chat.completions.create\<close>. The temperature is the decimal
  literal of the source.
\<close>

record chat_request =
  req_model :: str
  req_messages :: "(str \<times> str) list"
  req_max_tokens :: nat
  req_temperature :: rat

datatype level = INFO | WARNING | ERROR

text \<open>What the program does to the outside, in the order it does it.\<close>

datatype event =
    Log level str
  | ChatCall chat_request
  | Sleep nat
  | PostCall str str "(str \<times> str) list"

text \<open>
  The library functions and the remote services are parameters of the model. \<open>'w\<close> is the
  state of the outside world (the provider of the language model, the delivery endpoint).
  \<^item> \<open>chat_create\<close>: \<open>client.chat.completions.create(...)\<close> followed by
    \<open>response.choices[0].message.content\<close>; \<open>Inl e\<close> when an exception is raised on the
    way (\<open>e\<close> is \<open>str\<close> of the exception), \<open>Inr content\<close> otherwise;
  \<^item> \<open>json_loads\<close>: \<open>json.loads\<close>; \<open>Inl e\<close> when it raises;
  \<^item> \<open>json_dumps\<close>: \<open>json.dumps(_, indent=2)\<close>;
  \<^item> \<open>py_repr\<close>: \<open>str(v)\<close> of a parsed value that is not a string;
  \<^item> \<open>requests_post\<close>: \<open>requests.post(url, data=..., headers=...)\<close>; \<open>Inl e\<close> when it
    raises, \<open>Inr status_code\<close> otherwise;
  \<^item> \<open>target_api_url\<close>: \<open>TARGET_API_URL\<close>, read from the environment.
\<close>

record 'w env =
  chat_create :: "chat_request \<Rightarrow> 'w \<Rightarrow> (str + str) \<times> 'w"
  json_loads :: "str \<Rightarrow> str + json"
  json_dumps :: "json \<Rightarrow> str"
  py_repr :: "json \<Rightarrow> str"
  requests_post :: "str \<Rightarrow> str \<Rightarrow> (str \<times> str) list \<Rightarrow> 'w \<Rightarrow> (str + int) \<times> 'w"
  target_api_url :: str

record 'w io =
  world :: 'w
  trace :: "event list"

definition logging :: "level \<Rightarrow> str \<Rightarrow> 'w io \<Rightarrow> 'w io" where
  "logging lv msg s = s\<lparr>trace := trace s @ [Log lv msg]\<rparr>"

definition call_chat :: "'w env \<Rightarrow> chat_request \<Rightarrow> 'w io \<Rightarrow> (str + str) \<times> 'w io" where
  "call_chat E req s =
     (case chat_create E req (world s) of
        (r, w) \<Rightarrow> (r, s\<lparr>world := w, trace := trace s @ [ChatCall req]\<rparr>))"

definition sleep :: "nat \<Rightarrow> 'w io \<Rightarrow> 'w io" where
  "sleep n s = s\<lparr>trace := trace s @ [Sleep n]\<rparr>"

definition call_post ::
  "'w env \<Rightarrow> str \<Rightarrow> str \<Rightarrow> (str \<times> str) list \<Rightarrow> 'w io \<Rightarrow> (str + int) \<times> 'w io" where
  "call_post E url body headers s =
     (case requests_post E url body headers (world s) of
        (r, w) \<Rightarrow> (r, s\<lparr>world := w, trace := trace s @ [PostCall url body headers]\<rparr>))"

text \<open>\<open>str(v)\<close>, as an f-string and \<open>str.format\<close> insert a value.\<close>

definition py_str :: "'w env \<Rightarrow> json \<Rightarrow> str" where
  "py_str E v = (case v of JStr s \<Rightarrow> s | _ \<Rightarrow> py_repr E v)"

section \<open>Cleaning a reply\<close>

text \<open>
  Both parsers of \<open>demo.py\<close> clean the stripped reply the same way (lines 47-50 and
  134-137):
  \<^verbatim>\<open>
  if raw_output.startswith("```json"):
      raw_output = raw_output[len("```json"):].strip()
  if raw_output.endswith("```"):
      raw_output = raw_output[:-3].strip()
  \<close>
\<close>

definition strip_fence :: "str \<Rightarrow> str" where
  "strip_fence raw_output =
     (let raw_output =
            (if startswith raw_output (u ''```json'')
             then strip (drop (length (u ''```json'')) raw_output) else raw_output)
      in if endswith raw_output (u ''```'')
         then strip (take (length raw_output - 3) raw_output) else raw_output)"

text \<open>The reply as the parser sees it: stripped, then without its fence.\<close>

definition cleaned :: "str \<Rightarrow> str" where
  "cleaned content = strip_fence (strip content)"

section \<open>Question generator\<close>

definition bulk_prompt :: "int \<Rightarrow> str \<Rightarrow> str" where
  "bulk_prompt num_questions raw_text =
     u ''Using the following context, generate exactly '' @ str_int num_questions
       @ u '' unique, concise, and use-case'' @ [8211] @ u ''driven questions. ''
     @ u ''Each question must be a single sentence that starts with a capital letter and ends with a question mark. ''
     @ u ''Return the questions as a JSON array of strings (do not include any extra text).'' @ nl @ nl
     @ u ''Context:'' @ nl @ raw_text"

definition questions_request :: "str \<Rightarrow> str \<Rightarrow> int \<Rightarrow> str \<Rightarrow> chat_request" where
  "questions_request raw_text question_prompt num_questions model =
     \<lparr>req_model = model,
      req_messages = [(u ''system'', question_prompt),
                      (u ''user'', bulk_prompt num_questions raw_text)],
      req_max_tokens = 1000,
      req_temperature = 2 / 10\<rparr>"

definition generate_bulk_questions ::
  "'w env \<Rightarrow> str \<Rightarrow> str \<Rightarrow> int \<Rightarrow> str \<Rightarrow> 'w io \<Rightarrow> json list option \<times> 'w io" where
  "generate_bulk_questions E raw_text question_prompt num_questions model s =
     (case call_chat E (questions_request raw_text question_prompt num_questions model) s of
        (Inl e, s1) \<Rightarrow>
          (None, logging ERROR (u ''Error generating bulk questions: '' @ e) s1)
      | (Inr content, s1) \<Rightarrow>
          (let raw_output = strip content;
               s2 = logging INFO (u ''Raw output: '' @ raw_output) s1;
               raw_output = strip_fence raw_output;
               s3 = logging INFO (u ''Bulk questions generated. Parsing JSON...'') s2
           in case json_loads E raw_output of
                Inl e \<Rightarrow>
                  (None, logging ERROR (u ''Error generating bulk questions: '' @ e) s3)
              | Inr (JArr questions) \<Rightarrow>
                  if int (length questions) = num_questions
                  then (Some questions, s3)
                  else (None, logging ERROR (u ''Error generating bulk questions: ''
                          @ u ''Parsed questions do not match the expected count.'') s3)
              | Inr _ \<Rightarrow>
                  (None, logging ERROR (u ''Error generating bulk questions: ''
                          @ u ''Parsed questions do not match the expected count.'') s3)))"

section \<open>Answer generator\<close>

definition answer_system_prompt :: "'w env \<Rightarrow> str \<Rightarrow> json \<Rightarrow> str" where
  "answer_system_prompt E raw_text question =
     u ''Using the following context, answer the question below.'' @ nl @ nl
     @ u ''Question:'' @ nl @ py_str E question @ nl @ nl
     @ u ''Your answer must include'' @ nl
     @ u ''1. containing a detailed, highly professional answer addressing the question.'' @ nl
     @ u ''2. 'Reasoning:'' @ nl
     @ u ''    - 'Facet considered:' followed by facets considered to answer the question (single line answer, short but informative),'' @ nl
     @ u ''    - 'Pros considered:' followed by exactly THREE advantages (comma-separated),'' @ nl
     @ u ''    - 'Cons considered:' followed by exactly TWO drawbacks (comma-separated).'' @ nl @ nl
     @ u ''Context:'' @ nl @ raw_text @ nl @ nl
     @ u ''Generate your answer as plain text with the two sections and no extra commentary.''"

definition answer_request :: "'w env \<Rightarrow> str \<Rightarrow> json \<Rightarrow> str \<Rightarrow> str \<Rightarrow> chat_request" where
  "answer_request E raw_text question answer_prompt model =
     \<lparr>req_model = model,
      req_messages = [(u ''system'', answer_system_prompt E raw_text question),
                      (u ''user'', answer_prompt)],
      req_max_tokens = 600,
      req_temperature = 3 / 10\<rparr>"

definition generate_answer_for_question ::
  "'w env \<Rightarrow> str \<Rightarrow> json \<Rightarrow> str \<Rightarrow> str \<Rightarrow> 'w io \<Rightarrow> str option \<times> 'w io" where
  "generate_answer_for_question E raw_text question answer_prompt model s =
     (case call_chat E (answer_request E raw_text question answer_prompt model) s of
        (Inl e, s1) \<Rightarrow>
          (None, logging ERROR (u ''Error generating answer for question '' @ [39]
                   @ py_str E question @ [39] @ u '': '' @ e) s1)
      | (Inr content, s1) \<Rightarrow>
          (let answer_text = strip content;
               s2 = logging INFO (u ''Answer generated for question.'') s1
           in (Some answer_text, s2)))"

section \<open>Detail extractor\<close>

definition extraction_prompt :: "'w env \<Rightarrow> str \<Rightarrow> json \<Rightarrow> str" where
  "extraction_prompt E answer_text question =
     u ''You are an expert at extracting structured information. The following question was asked:'' @ nl
     @ py_str E question @ nl
     @ u ''Below is an answer text generated by an LLM in response to this question. The answer text includes a brief summary of the question and relevant context data, along with a clearly and logically presented analysis, a balanced view explicitly stating the pros and cons, and a well-reasoned recommendation that aligns with the user's needs. '' @ nl
     @ nl
     @ u ''Your job is to extract 4 things from it:'' @ nl
     @ u ''- The main response (which is a professional, concise, two-sentence response similar to what a veteran shop attendant might say).'' @ nl
     @ u ''- The facet (whatever multiple facets of the product was considered during decision-making, explain in a nice manner, in 1 sentence).'' @ nl
     @ u ''- The pros (exactly 3 points, present the pros beautifully, they are the key selling point, 1 sentence per point).'' @ nl
     @ u ''- The cons (exactly 2 points, present them beautifully, 1 sentence per point).'' @ nl
     @ nl
     @ u ''Return the result in exactly the following JSON format:'' @ nl
     @ u ''{'' @ nl
     @ u '' \"answers\": \"<the main concise response>\",'' @ nl
     @ u '' \"facet\": [\"<facets>\"],'' @ nl
     @ u '' \"pros\": [\"<pro1>\", \"<pro2>\", \"<pro3>\"],'' @ nl
     @ u '' \"cons\": [\"<con1>\", \"<con2>\"]'' @ nl
     @ u ''}'' @ nl
     @ u ''Do not include any additional commentary. Use only the text provided below.'' @ nl
     @ u ''Text: '' @ answer_text"

definition extraction_request :: "'w env \<Rightarrow> str \<Rightarrow> json \<Rightarrow> str \<Rightarrow> chat_request" where
  "extraction_request E answer_text question model =
     \<lparr>req_model = model,
      req_messages = [(u ''system'', u ''You are a precise data extraction assistant.''),
                      (u ''user'', extraction_prompt E answer_text question)],
      req_max_tokens = 300,
      req_temperature = 2 / 10\<rparr>"

text \<open>The name of a value's type, as the message of an \<open>AttributeError\<close> quotes it.\<close>

fun type_name :: "json \<Rightarrow> str" where
  "type_name JNull = u ''NoneType''"
| "type_name (JBool b) = u ''bool''"
| "type_name (JInt i) = u ''int''"
| "type_name (JFloat f) = u ''float''"
| "type_name (JStr s) = u ''str''"
| "type_name (JArr xs) = u ''list''"
| "type_name (JObj kvs) = u ''dict''"

definition extraction_error :: "str \<Rightarrow> 'w io \<Rightarrow> pydict option \<times> 'w io" where
  "extraction_error e s = (None, logging ERROR (u ''Error extracting answer details: '' @ e) s)"

text \<open>
  Every \<open>raise\<close> of the body, and every exception of a call in it, ends in the one
  \<open>except\<close> clause: the error is logged and the result is \<open>None\<close>. A parsed value other
  than a dict has no \<open>get\<close>, so the first validation raises \<open>AttributeError\<close> on it.
\<close>

definition extract_answer_details ::
  "'w env \<Rightarrow> str \<Rightarrow> json \<Rightarrow> str \<Rightarrow> 'w io \<Rightarrow> pydict option \<times> 'w io" where
  "extract_answer_details E answer_text question model s =
     (case call_chat E (extraction_request E answer_text question model) s of
        (Inl e, s1) \<Rightarrow> extraction_error e s1
      | (Inr content, s1) \<Rightarrow>
          (let extracted_raw = strip content;
               s2 = logging INFO (u ''Extraction raw output: '' @ extracted_raw) s1;
               extracted_raw = strip_fence extracted_raw
           in if extracted_raw = []
              then extraction_error (u ''Extraction output is empty after cleaning.'') s2
              else
                (case json_loads E extracted_raw of
                   Inl e \<Rightarrow> extraction_error e s2
                 | Inr (JObj data) \<Rightarrow>
                     if \<not> is_list_of_len (dict_get data (u ''facet'')) 1
                     then extraction_error (u ''Facet count error.'') s2
                     else if \<not> is_list_of_len (dict_get data (u ''pros'')) 3
                     then extraction_error (u ''Pros count error.'') s2
                     else if \<not> is_list_of_len (dict_get data (u ''cons'')) 2
                     then extraction_error (u ''Cons count error.'') s2
                     else if \<not> truthy (dict_get data (u ''answers''))
                     then extraction_error (u ''Main answer is empty.'') s2
                     else (Some data, s2)
                 | Inr v \<Rightarrow>
                     extraction_error ([39] @ type_name v @ [39]
                       @ u '' object has no attribute 'get'' @ [39]) s2)))"

section \<open>Job orchestrator\<close>

text \<open>
  One pass of the \<open>for\<close> loop of \<open>generate_final_qna_container\<close> (lines 175-195) has three
  exits: the two \<open>continue\<close> statements, and the end of the body after the pair is
  appended and \<open>time.sleep(1)\<close> has run.
\<close>

datatype outcome = AnswerFailed | ExtractFailed | Paired json

fun is_paired :: "outcome \<Rightarrow> bool" where
  "is_paired (Paired p) = True"
| "is_paired _ = False"

definition skip_message :: "nat \<Rightarrow> str \<Rightarrow> str" where
  "skip_message idx what =
     u ''Skipping Q&A pair '' @ str_nat idx @ u '' due to '' @ what @ u '' failure.''"

definition qa_step ::
  "'w env \<Rightarrow> str \<Rightarrow> str \<Rightarrow> str \<Rightarrow> nat \<Rightarrow> json \<Rightarrow> 'w io \<Rightarrow> outcome \<times> 'w io" where
  "qa_step E raw_text answer_prompt model idx question s =
     (let s1 = logging INFO (u ''Processing Q&A pair '' @ str_nat idx @ u ''...'') s
      in case generate_answer_for_question E raw_text question answer_prompt model s1 of
           (None, s2) \<Rightarrow>
             (AnswerFailed, logging ERROR (skip_message idx (u ''answer generation'')) s2)
         | (Some answer_text, s2) \<Rightarrow>
             if answer_text = []
             then (AnswerFailed, logging ERROR (skip_message idx (u ''answer generation'')) s2)
             else
               (case extract_answer_details E answer_text question model s2 of
                  (None, s3) \<Rightarrow>
                    (ExtractFailed, logging ERROR (skip_message idx (u ''extraction'')) s3)
                | (Some extracted, s3) \<Rightarrow>
                    if extracted = []
                    then (ExtractFailed, logging ERROR (skip_message idx (u ''extraction'')) s3)
                    else
                      (let qa_pair = JObj
                             [(u ''question'', question),
                              (u ''answers'', dict_get extracted (u ''answers'')),
                              (u ''facet'', dict_get extracted (u ''facet'')),
                              (u ''pros'', dict_get extracted (u ''pros'')),
                              (u ''cons'', dict_get extracted (u ''cons''))]
                       in (Paired qa_pair, sleep 1 s3))))"

text \<open>\<open>for idx, question in enumerate(questions, start=1)\<close>, with the list \<open>qa\<close> built so far.\<close>

fun qa_loop ::
  "'w env \<Rightarrow> str \<Rightarrow> str \<Rightarrow> str \<Rightarrow> nat \<Rightarrow> json list \<Rightarrow> json list \<Rightarrow> 'w io
     \<Rightarrow> json list \<times> 'w io" where
  "qa_loop E raw_text answer_prompt model idx [] qa s = (qa, s)"
| "qa_loop E raw_text answer_prompt model idx (question # rest) qa s =
     (case qa_step E raw_text answer_prompt model idx question s of
        (Paired qa_pair, s') \<Rightarrow>
          qa_loop E raw_text answer_prompt model (Suc idx) rest (qa @ [qa_pair]) s'
      | (AnswerFailed, s') \<Rightarrow> qa_loop E raw_text answer_prompt model (Suc idx) rest qa s'
      | (ExtractFailed, s') \<Rightarrow> qa_loop E raw_text answer_prompt model (Suc idx) rest qa s')"

text \<open>What happened to each question of a run of the loop, in order.\<close>

fun qa_outcomes ::
  "'w env \<Rightarrow> str \<Rightarrow> str \<Rightarrow> str \<Rightarrow> nat \<Rightarrow> json list \<Rightarrow> 'w io \<Rightarrow> outcome list" where
  "qa_outcomes E raw_text answer_prompt model idx [] s = []"
| "qa_outcomes E raw_text answer_prompt model idx (question # rest) s =
     (case qa_step E raw_text answer_prompt model idx question s of
        (r, s') \<Rightarrow> r # qa_outcomes E raw_text answer_prompt model (Suc idx) rest s')"

fun pairs_of :: "outcome list \<Rightarrow> json list" where
  "pairs_of [] = []"
| "pairs_of (Paired p # os) = p # pairs_of os"
| "pairs_of (_ # os) = pairs_of os"

text \<open>
  What the two calls of one pass returned: the answer text, and the details extracted from
  it. The details are \<open>None\<close> where the extraction failed, and where it was not called
  because there was no answer to extract from.
\<close>

definition qa_reply ::
  "'w env \<Rightarrow> str \<Rightarrow> str \<Rightarrow> str \<Rightarrow> nat \<Rightarrow> json \<Rightarrow> 'w io \<Rightarrow> str option \<times> pydict option" where
  "qa_reply E raw_text answer_prompt model idx question s =
     (case generate_answer_for_question E raw_text question answer_prompt model
             (logging INFO (u ''Processing Q&A pair '' @ str_nat idx @ u ''...'') s) of
        (None, s2) \<Rightarrow> (None, None)
      | (Some answer_text, s2) \<Rightarrow>
          (Some answer_text,
           if answer_text = [] then None
           else fst (extract_answer_details E answer_text question model s2)))"

text \<open>The replies of every pass of a run of the loop, in order.\<close>

fun qa_replies ::
  "'w env \<Rightarrow> str \<Rightarrow> str \<Rightarrow> str \<Rightarrow> nat \<Rightarrow> json list \<Rightarrow> 'w io
     \<Rightarrow> (str option \<times> pydict option) list" where
  "qa_replies E raw_text answer_prompt model idx [] s = []"
| "qa_replies E raw_text answer_prompt model idx (question # rest) s =
     qa_reply E raw_text answer_prompt model idx question s
       # qa_replies E raw_text answer_prompt model (Suc idx) rest
           (snd (qa_step E raw_text answer_prompt model idx question s))"

definition final_container :: "str \<Rightarrow> str \<Rightarrow> str \<Rightarrow> json list \<Rightarrow> json" where
  "final_container container_id question_prompt answer_prompt qa =
     JObj [(u ''id'', JStr container_id),
           (u ''question_prompt'', JStr question_prompt),
           (u ''answer_prompt'', JStr answer_prompt),
           (u ''data'', JObj [(u ''qa'', JArr qa)])]"

definition generated_message :: "nat \<Rightarrow> str" where
  "generated_message n =
     u ''Generated '' @ str_nat n @ u '' questions. Proceeding with answer generation...''"

definition count_warning :: "int \<Rightarrow> nat \<Rightarrow> str" where
  "count_warning num_pairs n =
     u ''Expected '' @ str_int num_pairs @ u '' QA pairs but only assembled '' @ str_nat n @ u ''.''"

definition generate_final_qna_container ::
  "'w env \<Rightarrow> str \<Rightarrow> str \<Rightarrow> str \<Rightarrow> str \<Rightarrow> int \<Rightarrow> str \<Rightarrow> 'w io \<Rightarrow> str option \<times> 'w io" where
  "generate_final_qna_container E container_id raw_text question_prompt answer_prompt
       num_pairs model s =
     (case generate_bulk_questions E raw_text question_prompt 20 model s of
        (None, s1) \<Rightarrow> (None, logging ERROR (u ''Failed to generate questions.'') s1)
      | (Some questions, s1) \<Rightarrow>
          if questions = []
          then (None, logging ERROR (u ''Failed to generate questions.'') s1)
          else
            (let s2 = logging INFO (generated_message (length questions)) s1
             in case qa_loop E raw_text answer_prompt model 1 questions [] s2 of
                  (qa, s3) \<Rightarrow>
                    (let s4 = (if int (length qa) \<noteq> num_pairs
                               then logging WARNING (count_warning num_pairs (length qa)) s3
                               else s3)
                     in (Some (json_dumps E
                           (final_container container_id question_prompt answer_prompt qa)),
                         s4))))"

section \<open>HTTP layer\<close>

record job =
  status :: str
  result :: "str option"

record qna_request =
  rq_id :: str
  rq_raw_text :: str
  rq_question_prompt :: str
  rq_answer_prompt :: str

type_synonym task = "str \<times> str \<times> str \<times> str"

text \<open>
  The process-wide state: the outside, the global dictionary \<open>jobs\<close>, and the tasks handed
  to \<open>background_tasks.add_task\<close> that have not run yet.
\<close>

record 'w server =
  outside :: "'w io"
  jobs :: "str \<rightharpoonup> job"
  background_tasks :: "task list"

definition push_failed_message :: "str \<Rightarrow> int \<Rightarrow> str" where
  "push_failed_message job_id status_code =
     u ''Failed to push Q&A container for job '' @ job_id @ u ''. Status: '' @ str_int status_code"

definition push_error_message :: "str \<Rightarrow> str \<Rightarrow> str" where
  "push_error_message job_id e =
     u ''Error pushing Q&A container for job '' @ job_id @ u '': '' @ e"

text \<open>The \<open>try\<close> block of \<open>process_qna_job\<close> (lines 222-228).\<close>

definition push :: "'w env \<Rightarrow> str \<Rightarrow> str \<Rightarrow> 'w io \<Rightarrow> 'w io" where
  "push E job_id final_json s =
     (let headers = [(u ''Content-Type'', u ''application/json'')]
      in case call_post E (target_api_url E) final_json headers s of
           (Inl e, s1) \<Rightarrow> logging ERROR (push_error_message job_id e) s1
         | (Inr status_code, s1) \<Rightarrow>
             if status_code \<noteq> 200
             then logging ERROR (push_failed_message job_id status_code) s1
             else s1)"

definition job_failed :: "str \<Rightarrow> 'w io \<Rightarrow> 'w server \<Rightarrow> 'w server" where
  "job_failed job_id s sv =
     sv\<lparr>outside := s, jobs := (jobs sv)(job_id \<mapsto> \<lparr>status = u ''failed'', result = None\<rparr>)\<rparr>"

definition process_qna_job ::
  "'w env \<Rightarrow> str \<Rightarrow> str \<Rightarrow> str \<Rightarrow> str \<Rightarrow> 'w server \<Rightarrow> 'w server" where
  "process_qna_job E job_id raw_text question_prompt answer_prompt sv =
     (case generate_final_qna_container E job_id raw_text question_prompt answer_prompt
             20 (u ''gpt-4'') (outside sv) of
        (None, s1) \<Rightarrow> job_failed job_id s1 sv
      | (Some final_json, s1) \<Rightarrow>
          if final_json = [] then job_failed job_id s1 sv
          else
            (let s2 = push E job_id final_json s1
             in sv\<lparr>outside := s2,
                   jobs := (jobs sv)(job_id \<mapsto>
                     \<lparr>status = u ''completed'', result = Some final_json\<rparr>)\<rparr>))"

record generate_response =
  resp_job_id :: str
  resp_status :: str

text \<open>The body of the handler \<open>generate_qna\<close> (lines 235-243).\<close>

definition generate_qna_body ::
  "qna_request \<Rightarrow> 'w server \<Rightarrow> generate_response \<times> 'w server" where
  "generate_qna_body request sv =
     (let s1 = logging INFO (u ''Received QNA generation request.'') (outside sv);
          job_id = rq_id request;
          jobs1 = (jobs sv)(job_id \<mapsto> \<lparr>status = u ''processing'', result = None\<rparr>);
          tasks1 = background_tasks sv
            @ [(job_id, rq_raw_text request, rq_question_prompt request, rq_answer_prompt request)]
      in (\<lparr>resp_job_id = job_id, resp_status = u ''processing''\<rparr>,
          sv\<lparr>outside := s1, jobs := jobs1, background_tasks := tasks1\<rparr>))"

datatype http_error = HTTPException nat str

text \<open>The body of the handler \<open>get_status\<close> (lines 247-249).\<close>

definition get_status_body :: "str \<Rightarrow> 'w server \<Rightarrow> http_error + job" where
  "get_status_body job_id sv =
     (case jobs sv job_id of
        None \<Rightarrow> Inl (HTTPException 404 (u ''Job ID not found''))
      | Some j \<Rightarrow> Inr j)"

section \<open>Defining the handlers\<close>

text \<open>
  The two handlers exist once their \<open>def\<close> statements have run. A \<open>def\<close> statement
  evaluates the annotations of its parameters when it runs (the module has no
  \<open>from __future__ import annotations\<close>), and the decorator of the framework reads them
  again: an annotation that names nothing raises \<open>NameError\<close>, which ends the import of
  the module at that statement.
\<close>

datatype py_exception = NameError str

text \<open>
  The names bound in the module when line 233 is reached: the imports of lines 1-10
  (\<open>from fastapi import FastAPI, HTTPException\<close> is line 8), \<open>client\<close>,
  \<open>TARGET_API_URL\<close>, the four pipeline functions, \<open>app\<close>, \<open>QNARequest\<close>, \<open>jobs\<close> and
  \<open>process_qna_job\<close>.
\<close>

definition module_names :: "str list" where
  "module_names =
     [u ''json'', u ''os'', u ''asyncio'', u ''requests'', u ''logging'', u ''time'',
      u ''OpenAI'', u ''FastAPI'', u ''HTTPException'', u ''BaseModel'', u ''uvicorn'',
      u ''client'', u ''TARGET_API_URL'', u ''generate_bulk_questions'',
      u ''generate_answer_for_question'', u ''extract_answer_details'',
      u ''generate_final_qna_container'', u ''app'', u ''QNARequest'', u ''jobs'',
      u ''process_qna_job'']"

text \<open>Of the names the handlers' annotations use, \<open>str\<close> is the one builtin.\<close>

definition builtin_names :: "str list" where
  "builtin_names = [u ''str'']"

fun eval_annotations :: "str list \<Rightarrow> str list \<Rightarrow> py_exception + unit" where
  "eval_annotations bound [] = Inr ()"
| "eval_annotations bound (n # ns) =
     (if n \<in> set bound \<or> n \<in> set builtin_names then eval_annotations bound ns
      else Inl (NameError n))"

text \<open>
  Lines 233-249, in order:
  \<^verbatim>\<open>async def generate_qna(request: QNARequest, background_tasks: BackgroundTasks)\<close>, then
  \<^verbatim>\<open>def get_status(job_id: str)\<close>.
\<close>

definition define_handlers :: "py_exception + unit" where
  "define_handlers =
     (case eval_annotations module_names [u ''QNARequest'', u ''BackgroundTasks''] of
        Inl e \<Rightarrow> Inl e
      | Inr _ \<Rightarrow> eval_annotations (module_names @ [u ''generate_qna'']) [u ''str''])"

text \<open>
  \<open>POST /api/generate\<close> and \<open>GET /api/status/{job_id}\<close>, as the module serves them: a
  handler answers with what its body does if the module has been imported, and there is
  nothing to answer where the import has raised.
\<close>

definition generate_qna ::
  "qna_request \<Rightarrow> 'w server \<Rightarrow> py_exception + generate_response \<times> 'w server" where
  "generate_qna request sv =
     (case define_handlers of
        Inl e \<Rightarrow> Inl e
      | Inr _ \<Rightarrow> Inr (generate_qna_body request sv))"

definition get_status :: "str \<Rightarrow> 'w server \<Rightarrow> py_exception + (http_error + job)" where
  "get_status job_id sv =
     (case define_handlers of
        Inl e \<Rightarrow> Inl e
      | Inr _ \<Rightarrow> Inr (get_status_body job_id sv))"

section \<open>Vocabulary of the statements\<close>

fun is_str :: "json \<Rightarrow> bool" where
  "is_str (JStr s) = True"
| "is_str _ = False"

fun is_chat :: "event \<Rightarrow> bool" where
  "is_chat (ChatCall req) = True"
| "is_chat _ = False"

fun is_sleep :: "event \<Rightarrow> bool" where
  "is_sleep (Sleep n) = True"
| "is_sleep _ = False"


section \<open>Test doubles\<close>

text \<open>
  A scripted outside world, as a test with mocks sets one up: the language model answers
  with the replies of a script, one per call, in order, and the delivery endpoint answers
  every POST with the reply the environment is built with.
\<close>

definition mock_chat :: "chat_request \<Rightarrow> (str + str) list \<Rightarrow> (str + str) \<times> (str + str) list" where
  "mock_chat req w =
     (case w of
        [] \<Rightarrow> (Inl (u ''Connection error.''), [])
      | r # rs \<Rightarrow> (r, rs))"

definition mock_post ::
  "str + int \<Rightarrow> str \<Rightarrow> str \<Rightarrow> (str \<times> str) list \<Rightarrow> (str + str) list
     \<Rightarrow> (str + int) \<times> (str + str) list" where
  "mock_post post_reply url body headers w = (post_reply, w)"

definition questions20 :: "json list" where
  "questions20 =
     [JStr (u ''Q1?''), JStr (u ''Q2?''), JStr (u ''Q3?''), JStr (u ''Q4?''), JStr (u ''Q5?''),
      JStr (u ''Q6?''), JStr (u ''Q7?''), JStr (u ''Q8?''), JStr (u ''Q9?''), JStr (u ''Q10?''),
      JStr (u ''Q11?''), JStr (u ''Q12?''), JStr (u ''Q13?''), JStr (u ''Q14?''), JStr (u ''Q15?''),
      JStr (u ''Q16?''), JStr (u ''Q17?''), JStr (u ''Q18?''), JStr (u ''Q19?''), JStr (u ''Q20?'')]"

definition questions20_text :: str where
  "questions20_text =
     u ''[\"Q1?\", \"Q2?\", \"Q3?\", \"Q4?\", \"Q5?\", \"Q6?\", \"Q7?\", \"Q8?\", \"Q9?\", \"Q10?\", ''
     @ u ''\"Q11?\", \"Q12?\", \"Q13?\", \"Q14?\", \"Q15?\", \"Q16?\", \"Q17?\", \"Q18?\", \"Q19?\", \"Q20?\"]''"

definition two_text :: str where
  "two_text = u ''[\"A?\", \"B?\"]''"

definition one_text :: str where
  "one_text = u ''[\"A?\"]''"

definition three_text :: str where
  "three_text = u ''[\"A?\", \"B?\", \"C?\"]''"

definition mixed_text :: str where
  "mixed_text = u ''[1, {\"a\": null}, [[]], null]''"

definition mixed_values :: "json list" where
  "mixed_values = [JInt 1, JObj [(u ''a'', JNull)], JArr [JArr []], JNull]"

definition details_text :: str where
  "details_text =
     u ''{\"answers\": \"A.\", \"facet\": [\"f\"], \"pros\": [\"p1\", \"p2\", \"p3\"], \"cons\": [\"c1\", \"c2\"]}''"

definition details :: pydict where
  "details =
     [(u ''answers'', JStr (u ''A.'')),
      (u ''facet'', JArr [JStr (u ''f'')]),
      (u ''pros'', JArr [JStr (u ''p1''), JStr (u ''p2''), JStr (u ''p3'')]),
      (u ''cons'', JArr [JStr (u ''c1''), JStr (u ''c2'')])]"

definition two_facets_text :: str where
  "two_facets_text =
     u ''{\"answers\": \"A.\", \"facet\": [\"f\", \"g\"], \"pros\": [\"p1\", \"p2\", \"p3\"], \"cons\": [\"c1\", \"c2\"]}''"

definition two_facets :: pydict where
  "two_facets =
     [(u ''answers'', JStr (u ''A.'')),
      (u ''facet'', JArr [JStr (u ''f''), JStr (u ''g'')]),
      (u ''pros'', JArr [JStr (u ''p1''), JStr (u ''p2''), JStr (u ''p3'')]),
      (u ''cons'', JArr [JStr (u ''c1''), JStr (u ''c2'')])]"

text \<open>The texts above parse to the values beside them; every other text is refused.\<close>

definition mock_loads :: "str \<Rightarrow> str + json" where
  "mock_loads s =
     (if s = questions20_text then Inr (JArr questions20)
      else if s = two_text then Inr (JArr [JStr (u ''A?''), JStr (u ''B?'')])
      else if s = one_text then Inr (JArr [JStr (u ''A?'')])
      else if s = three_text then Inr (JArr [JStr (u ''A?''), JStr (u ''B?''), JStr (u ''C?'')])
      else if s = mixed_text then Inr (JArr mixed_values)
      else if s = details_text then Inr (JObj details)
      else if s = two_facets_text then Inr (JObj two_facets)
      else Inl (u ''Expecting value: line 1 column 1 (char 0)''))"

text \<open>A stand-in for the serialiser that tells containers apart by their number of pairs.\<close>

definition mock_dumps :: "json \<Rightarrow> str" where
  "mock_dumps v =
     (case v of
        JObj [_, _, _, (_, JObj [(_, JArr qa)])] \<Rightarrow> u ''{\"pairs\": '' @ str_nat (length qa) @ u ''}''
      | _ \<Rightarrow> u ''{}'')"

definition mock_env :: "str + int \<Rightarrow> (str + str) list env" where
  "mock_env post_reply =
     \<lparr>chat_create = mock_chat,
      json_loads = mock_loads,
      json_dumps = mock_dumps,
      py_repr = mock_dumps,
      requests_post = mock_post post_reply,
      target_api_url = u ''https://playground.mprompto.com:3000/api/v1/demo/clients/load-json-data''\<rparr>"

definition answered :: "(str + str) list" where
  "answered = [Inr (u ''An answer.''), Inr details_text]"

definition not_extracted :: "(str + str) list" where
  "not_extracted = [Inr (u ''An answer.''), Inr two_facets_text]"

text \<open>Twenty questions; the extraction of question 5 comes back with two facets.\<close>

definition script_q5 :: "(str + str) list" where
  "script_q5 =
     Inr questions20_text
       # concat (replicate 4 answered) @ not_extracted @ concat (replicate 15 answered)"

definition mock_io :: "(str + str) list \<Rightarrow> (str + str) list io" where
  "mock_io replies = \<lparr>world = replies, trace = []\<rparr>"

definition mock_server :: "(str + str) list \<Rightarrow> (str + str) list server" where
  "mock_server replies =
     \<lparr>outside = mock_io replies, jobs = Map.empty, background_tasks = []\<rparr>"

text \<open>The pair assembled from \<open>details\<close> for a question.\<close>

definition mock_pair :: "json \<Rightarrow> json" where
  "mock_pair q =
     JObj [(u ''question'', q),
           (u ''answers'', JStr (u ''A.'')),
           (u ''facet'', JArr [JStr (u ''f'')]),
           (u ''pros'', JArr [JStr (u ''p1''), JStr (u ''p2''), JStr (u ''p3'')]),
           (u ''cons'', JArr [JStr (u ''c1''), JStr (u ''c2'')])]"

definition outcomes_q5 :: "outcome list" where
  "outcomes_q5 =
     map (\<lambda>q. Paired (mock_pair q)) (take 4 questions20)
       @ [ExtractFailed]
       @ map (\<lambda>q. Paired (mock_pair q)) (drop 5 questions20)"

section \<open>Results about the parsers\<close>

lemma generate_bulk_questions_Some:
  "(fst (generate_bulk_questions E raw_text question_prompt n model s) = Some qs) =
     (\<exists>content. fst (chat_create E (questions_request raw_text question_prompt n model) (world s))
          = Inr content
        \<and> json_loads E (cleaned content) = Inr (JArr qs) \<and> int (length qs) = n)"
  by (auto simp: generate_bulk_questions_def call_chat_def cleaned_def Let_def
      split: prod.splits sum.splits json.splits)

lemma cleaned_fenced_two:
  "cleaned (u ''```json'' @ nl @ two_text @ nl @ u ''```'') = two_text"
  by (simp add: cleaned_def strip_fence_def strip_def startswith_def endswith_def u_def nl_def
      two_text_def isspace_def whitespace_def)

lemma cleaned_one: "cleaned one_text = one_text"
  by (simp add: cleaned_def strip_fence_def strip_def startswith_def endswith_def u_def
      one_text_def isspace_def whitespace_def)

lemma cleaned_three: "cleaned three_text = three_text"
  by (simp add: cleaned_def strip_fence_def strip_def startswith_def endswith_def u_def
      three_text_def isspace_def whitespace_def)

lemma cleaned_mixed: "cleaned mixed_text = mixed_text"
  by (simp add: cleaned_def strip_fence_def strip_def startswith_def endswith_def u_def
      mixed_text_def isspace_def whitespace_def)

lemma loads_two: "json_loads (mock_env p) two_text = Inr (JArr [JStr (u ''A?''), JStr (u ''B?'')])"
  by (simp add: mock_env_def mock_loads_def questions20_text_def two_text_def u_def)

lemma loads_one: "json_loads (mock_env p) one_text = Inr (JArr [JStr (u ''A?'')])"
  by (simp add: mock_env_def mock_loads_def questions20_text_def two_text_def one_text_def u_def)

lemma loads_three:
  "json_loads (mock_env p) three_text = Inr (JArr [JStr (u ''A?''), JStr (u ''B?''), JStr (u ''C?'')])"
  by (simp add: mock_env_def mock_loads_def questions20_text_def two_text_def one_text_def
      three_text_def u_def)

lemma loads_mixed: "json_loads (mock_env p) mixed_text = Inr (JArr mixed_values)"
  by (simp add: mock_env_def mock_loads_def questions20_text_def two_text_def one_text_def
      three_text_def mixed_text_def u_def)

lemma loads_prose:
  "json_loads (mock_env p) (cleaned (u ''Sure! Here are your questions.''))
     = Inl (u ''Expecting value: line 1 column 1 (char 0)'')"
  by (simp add: mock_env_def mock_loads_def questions20_text_def two_text_def one_text_def
      three_text_def mixed_text_def details_text_def two_facets_text_def u_def
      cleaned_def strip_fence_def strip_def startswith_def endswith_def isspace_def
      whitespace_def)

lemma mock_chat_first:
  "chat_create (mock_env p) req (world (mock_io (r # rs))) = (r, rs)"
  by (simp add: mock_env_def mock_chat_def mock_io_def)

text \<open>
  C2. When the call to the language model returns a text: if the cleaned text parses as a
  JSON array of exactly \<open>num_questions\<close> strings, \<open>generate_bulk_questions\<close> returns that
  array, unchanged and in order; if it parses as an array of \<open>num_questions - 1\<close> or
  \<open>num_questions + 1\<close> elements, or does not parse, it returns \<open>None\<close>.
\<close>

theorem generate_bulk_questions_contract:
  assumes "chat_create E (questions_request raw_text question_prompt n model) (world s)
             = (Inr content, w)"
  shows "(json_loads E (cleaned content) = Inr (JArr qs) \<and> list_all is_str qs
            \<and> int (length qs) = n
          \<longrightarrow> fst (generate_bulk_questions E raw_text question_prompt n model s) = Some qs)
       \<and> (json_loads E (cleaned content) = Inr (JArr qs)
            \<and> (int (length qs) = n - 1 \<or> int (length qs) = n + 1)
          \<longrightarrow> fst (generate_bulk_questions E raw_text question_prompt n model s) = None)
       \<and> ((\<exists>e. json_loads E (cleaned content) = Inl e)
          \<longrightarrow> fst (generate_bulk_questions E raw_text question_prompt n model s) = None)"
  using assms
  by (auto simp: generate_bulk_questions_def call_chat_def cleaned_def Let_def)

theorem generate_bulk_questions_contract_witness:
  "fst (generate_bulk_questions (mock_env (Inr 200)) (u ''ctx'') (u ''sys'') 2 (u ''gpt-4o'')
          (mock_io [Inr (u ''```json'' @ nl @ two_text @ nl @ u ''```'')]))
     = Some [JStr (u ''A?''), JStr (u ''B?'')]
   \<and> fst (generate_bulk_questions (mock_env (Inr 200)) (u ''ctx'') (u ''sys'') 2 (u ''gpt-4o'')
          (mock_io [Inr one_text])) = None
   \<and> fst (generate_bulk_questions (mock_env (Inr 200)) (u ''ctx'') (u ''sys'') 2 (u ''gpt-4o'')
          (mock_io [Inr three_text])) = None
   \<and> fst (generate_bulk_questions (mock_env (Inr 200)) (u ''ctx'') (u ''sys'') 2 (u ''gpt-4o'')
          (mock_io [Inr (u ''Sure! Here are your questions.'')])) = None"
proof -
  have a: "fst (generate_bulk_questions (mock_env (Inr 200)) (u ''ctx'') (u ''sys'') 2 (u ''gpt-4o'')
          (mock_io [Inr (u ''```json'' @ nl @ two_text @ nl @ u ''```'')]))
     = Some [JStr (u ''A?''), JStr (u ''B?'')]"
    using generate_bulk_questions_contract [OF mock_chat_first,
        where qs = "[JStr (u ''A?''), JStr (u ''B?'')]" and n = 2]
    by (simp add: cleaned_fenced_two loads_two)
  have b: "fst (generate_bulk_questions (mock_env (Inr 200)) (u ''ctx'') (u ''sys'') 2 (u ''gpt-4o'')
          (mock_io [Inr one_text])) = None"
    using generate_bulk_questions_contract [OF mock_chat_first,
        where qs = "[JStr (u ''A?'')]" and n = 2]
    by (simp add: cleaned_one loads_one)
  have c: "fst (generate_bulk_questions (mock_env (Inr 200)) (u ''ctx'') (u ''sys'') 2 (u ''gpt-4o'')
          (mock_io [Inr three_text])) = None"
    using generate_bulk_questions_contract [OF mock_chat_first,
        where qs = "[JStr (u ''A?''), JStr (u ''B?''), JStr (u ''C?'')]" and n = 2]
    by (simp add: cleaned_three loads_three)
  have d: "fst (generate_bulk_questions (mock_env (Inr 200)) (u ''ctx'') (u ''sys'') 2 (u ''gpt-4o'')
          (mock_io [Inr (u ''Sure! Here are your questions.'')])) = None"
    using generate_bulk_questions_contract [OF mock_chat_first, where n = 2]
    by (simp add: loads_prose)
  from a b c d show ?thesis by simp
qed

text \<open>
  C9. \<open>generate_bulk_questions\<close> checks that the parsed value is a list of
  \<open>num_questions\<close> elements and nothing about the elements: whatever they are (numbers,
  objects, nested arrays, nulls), the list is returned as the questions.
\<close>

theorem generate_bulk_questions_any_elements:
  assumes "chat_create E (questions_request raw_text question_prompt n model) (world s)
             = (Inr content, w)"
    and "json_loads E (cleaned content) = Inr (JArr qs)"
    and "int (length qs) = n"
  shows "fst (generate_bulk_questions E raw_text question_prompt n model s) = Some qs"
  using assms
  by (auto simp: generate_bulk_questions_def call_chat_def cleaned_def Let_def)

theorem generate_bulk_questions_any_elements_witness:
  "fst (generate_bulk_questions (mock_env (Inr 200)) (u ''ctx'') (u ''sys'') 4 (u ''gpt-4o'')
          (mock_io [Inr mixed_text]))
     = Some [JInt 1, JObj [(u ''a'', JNull)], JArr [JArr []], JNull]"
proof -
  have "json_loads (mock_env (Inr 200)) (cleaned mixed_text) = Inr (JArr mixed_values)"
    by (simp add: cleaned_mixed loads_mixed)
  moreover have "int (length mixed_values) = 4"
    by (simp add: mixed_values_def)
  ultimately have "fst (generate_bulk_questions (mock_env (Inr 200)) (u ''ctx'') (u ''sys'') 4 (u ''gpt-4o'')
          (mock_io [Inr mixed_text])) = Some mixed_values"
    by (rule generate_bulk_questions_any_elements [OF mock_chat_first])
  then show ?thesis by (simp add: mixed_values_def)
qed

text \<open>
  C3. \<open>extract_answer_details\<close> returns a value exactly when the call returned a text, the
  cleaned text is not empty and parses as a JSON object whose \<open>facet\<close> is a list of
  length 1, whose \<open>pros\<close> is a list of length 3, whose \<open>cons\<close> is a list of length 2 and
  whose \<open>answers\<close> is true in Python's sense (present, and not empty); the value is then
  the parsed object. Where any one of these conditions fails, the result is \<open>None\<close>.
\<close>

theorem extract_answer_details_Some_iff:
  "(fst (extract_answer_details E answer_text question model s) = Some data) =
     (\<exists>content.
        fst (chat_create E (extraction_request E answer_text question model) (world s))
          = Inr content
        \<and> cleaned content \<noteq> []
        \<and> json_loads E (cleaned content) = Inr (JObj data)
        \<and> is_list_of_len (dict_get data (u ''facet'')) 1
        \<and> is_list_of_len (dict_get data (u ''pros'')) 3
        \<and> is_list_of_len (dict_get data (u ''cons'')) 2
        \<and> truthy (dict_get data (u ''answers'')))"
  by (auto simp: extract_answer_details_def extraction_error_def call_chat_def cleaned_def
      Let_def split: prod.splits sum.splits json.splits)

section \<open>Effects of the steps\<close>

lemma trace_logging [simp]: "trace (logging lv msg s) = trace s @ [Log lv msg]"
  by (simp add: logging_def)

lemma world_logging [simp]: "world (logging lv msg s) = world s"
  by (simp add: logging_def)

lemma trace_sleep [simp]: "trace (sleep n s) = trace s @ [Sleep n]"
  by (simp add: sleep_def)

lemma world_sleep [simp]: "world (sleep n s) = world s"
  by (simp add: sleep_def)

lemma call_chat_eq:
  "call_chat E req s =
     (fst (chat_create E req (world s)),
      s\<lparr>world := snd (chat_create E req (world s)), trace := trace s @ [ChatCall req]\<rparr>)"
  by (simp add: call_chat_def split: prod.splits)

lemma generate_bulk_questions_chat:
  "filter is_chat (trace (snd (generate_bulk_questions E raw_text question_prompt n model s)))
     = filter is_chat (trace s) @ [ChatCall (questions_request raw_text question_prompt n model)]"
  by (simp add: generate_bulk_questions_def call_chat_eq Let_def
      split: sum.splits json.splits)

section \<open>Results about a job\<close>

text \<open>
  C4. When question generation returns \<open>None\<close> for a job, \<open>process_qna_job\<close> records the
  job as \<open>failed\<close> with no result, and the only call to the language model that the job
  made is the one request for the questions: no answer is generated and nothing is
  extracted.
\<close>

theorem failed_question_generation_fails_job:
  assumes "generate_bulk_questions E raw_text question_prompt 20 (u ''gpt-4'') (outside sv)
             = (None, s1)"
  shows "process_qna_job E job_id raw_text question_prompt answer_prompt sv
           = sv\<lparr>outside := logging ERROR (u ''Failed to generate questions.'') s1,
                jobs := (jobs sv)(job_id \<mapsto> \<lparr>status = u ''failed'', result = None\<rparr>)\<rparr>
       \<and> filter is_chat (trace (outside
             (process_qna_job E job_id raw_text question_prompt answer_prompt sv)))
           = filter is_chat (trace (outside sv))
               @ [ChatCall (questions_request raw_text question_prompt 20 (u ''gpt-4''))]"
proof -
  have "filter is_chat (trace s1)
          = filter is_chat (trace (outside sv))
              @ [ChatCall (questions_request raw_text question_prompt 20 (u ''gpt-4''))]"
    using generate_bulk_questions_chat
      [of E raw_text question_prompt 20 "u ''gpt-4''" "outside sv"] assms
    by simp
  then show ?thesis
    using assms
    by (simp add: process_qna_job_def generate_final_qna_container_def job_failed_def)
qed

lemma prose_fails:
  "fst (generate_bulk_questions (mock_env p) raw_text question_prompt 20 (u ''gpt-4'')
          (mock_io [Inr (u ''Sure! Here are your questions.'')])) = None"
proof (rule ccontr)
  assume "fst (generate_bulk_questions (mock_env p) raw_text question_prompt 20 (u ''gpt-4'')
            (mock_io [Inr (u ''Sure! Here are your questions.'')])) \<noteq> None"
  then obtain qs where
    "fst (generate_bulk_questions (mock_env p) raw_text question_prompt 20 (u ''gpt-4'')
       (mock_io [Inr (u ''Sure! Here are your questions.'')])) = Some qs"
    by auto
  then show False
    by (auto simp: generate_bulk_questions_Some mock_chat_first loads_prose)
qed

theorem failed_question_generation_fails_job_witness:
  "jobs (process_qna_job (mock_env (Inr 200)) (u ''job-1'') (u ''ctx'') (u ''sys'') (u ''ans'')
           (mock_server [Inr (u ''Sure! Here are your questions.'')])) (u ''job-1'')
     = Some \<lparr>status = u ''failed'', result = None\<rparr>
   \<and> filter is_chat (trace (outside
         (process_qna_job (mock_env (Inr 200)) (u ''job-1'') (u ''ctx'') (u ''sys'') (u ''ans'')
           (mock_server [Inr (u ''Sure! Here are your questions.'')]))))
     = [ChatCall (questions_request (u ''ctx'') (u ''sys'') 20 (u ''gpt-4''))]"
proof -
  let ?sv = "mock_server [Inr (u ''Sure! Here are your questions.'')]"
  let ?g = "generate_bulk_questions (mock_env (Inr 200)) (u ''ctx'') (u ''sys'') 20 (u ''gpt-4'')
              (outside ?sv)"
  have "?g = (None, snd ?g)"
    using prose_fails [where p = "Inr 200" and raw_text = "u ''ctx''" and question_prompt = "u ''sys''"]
    by (simp add: prod_eq_iff mock_server_def)
  note job = failed_question_generation_fails_job [OF this, of "u ''job-1''" "u ''ans''"]
  have "jobs (process_qna_job (mock_env (Inr 200)) (u ''job-1'') (u ''ctx'') (u ''sys'') (u ''ans'') ?sv)
          (u ''job-1'') = Some \<lparr>status = u ''failed'', result = None\<rparr>"
    using job [THEN conjunct1] by simp
  moreover have "filter is_chat (trace (outside
         (process_qna_job (mock_env (Inr 200)) (u ''job-1'') (u ''ctx'') (u ''sys'') (u ''ans'') ?sv)))
     = [ChatCall (questions_request (u ''ctx'') (u ''sys'') 20 (u ''gpt-4''))]"
    using job [THEN conjunct2] by (simp add: mock_server_def mock_io_def)
  ultimately show ?thesis by simp
qed

text \<open>
  C5. When a job has produced a container and the delivery POST fails, by raising or by
  answering with a status outside 200..299, \<open>process_qna_job\<close> logs one error and nothing
  else happens: the job is recorded as \<open>completed\<close>, with the whole serialised container
  as its result.
\<close>

theorem failed_delivery_keeps_job_completed:
  assumes "generate_final_qna_container E job_id raw_text question_prompt answer_prompt
             20 (u ''gpt-4'') (outside sv) = (Some final_json, s1)"
    and "final_json \<noteq> []"
    and "requests_post E (target_api_url E) final_json
           [(u ''Content-Type'', u ''application/json'')] (world s1) = (r, w)"
    and "(\<exists>e. r = Inl e) \<or> (\<exists>c. r = Inr c \<and> (c < 200 \<or> 299 < c))"
  shows "process_qna_job E job_id raw_text question_prompt answer_prompt sv
           = sv\<lparr>outside :=
                  logging ERROR
                    (case r of Inl e \<Rightarrow> push_error_message job_id e
                             | Inr c \<Rightarrow> push_failed_message job_id c)
                    (s1\<lparr>world := w,
                        trace := trace s1 @ [PostCall (target_api_url E) final_json
                                   [(u ''Content-Type'', u ''application/json'')]]\<rparr>),
                jobs := (jobs sv)(job_id \<mapsto>
                  \<lparr>status = u ''completed'', result = Some final_json\<rparr>)\<rparr>"
  using assms
  by (auto simp: process_qna_job_def push_def call_post_def Let_def)

section \<open>Results about the HTTP layer\<close>

lemma generate_qna_body_effect:
  "fst (generate_qna_body request sv)
     = \<lparr>resp_job_id = rq_id request, resp_status = u ''processing''\<rparr>
   \<and> jobs (snd (generate_qna_body request sv))
     = (jobs sv)(rq_id request \<mapsto> \<lparr>status = u ''processing'', result = None\<rparr>)
   \<and> background_tasks (snd (generate_qna_body request sv))
     = background_tasks sv
         @ [(rq_id request, rq_raw_text request, rq_question_prompt request,
             rq_answer_prompt request)]
   \<and> world (outside (snd (generate_qna_body request sv))) = world (outside sv)
   \<and> trace (outside (snd (generate_qna_body request sv)))
     = trace (outside sv) @ [Log INFO (u ''Received QNA generation request.'')]"
  by (simp add: generate_qna_body_def Let_def)

lemma get_status_body_cases:
  "get_status_body job_id sv
     = (if job_id \<in> dom (jobs sv) then Inr (the (jobs sv job_id))
        else Inl (HTTPException 404 (u ''Job ID not found'')))"
  by (auto simp: get_status_body_def split: option.splits)

lemma define_handlers_raises: "define_handlers = Inl (NameError (u ''BackgroundTasks''))"
  by (simp add: define_handlers_def module_names_def builtin_names_def u_def)

text \<open>
  C6. The body of \<open>generate_qna\<close> does what the claim says (it registers the job as
  \<open>processing\<close>, schedules the task and returns, with no call to the language model), but
  the handler is never defined: its signature names \<open>BackgroundTasks\<close>, which the module
  does not import, so the \<open>def\<close> statement raises \<open>NameError\<close> and no submission, valid
  or not, gets an answer from \<open>POST /api/generate\<close>.
\<close>

theorem generate_qna_is_never_defined:
  "generate_qna request sv = Inl (NameError (u ''BackgroundTasks''))"
  by (simp add: generate_qna_def define_handlers_raises)

text \<open>
  C7. \<open>get_status\<close> is defined after \<open>generate_qna\<close>, in the same module: the
  \<open>NameError\<close> raised there ends the import before line 245 is reached, so
  \<open>GET /api/status/{job_id}\<close> answers neither with the 404 error nor with a job's entry.
\<close>

theorem get_status_is_never_defined:
  "get_status job_id sv = Inl (NameError (u ''BackgroundTasks''))"
  by (simp add: get_status_def define_handlers_raises)

section \<open>Results about the loop\<close>

lemma generate_answer_for_question_sleeps:
  "filter is_sleep (trace (snd (generate_answer_for_question E raw_text question answer_prompt
       model s))) = filter is_sleep (trace s)"
  by (simp add: generate_answer_for_question_def call_chat_eq Let_def split: sum.splits)

lemma extract_answer_details_sleeps:
  "filter is_sleep (trace (snd (extract_answer_details E answer_text question model s)))
     = filter is_sleep (trace s)"
  by (simp add: extract_answer_details_def extraction_error_def call_chat_eq Let_def
      split: sum.splits json.splits)

lemma qa_step_sleeps:
  "filter is_sleep (trace (snd (qa_step E raw_text answer_prompt model idx question s)))
     = filter is_sleep (trace s)
         @ (if is_paired (fst (qa_step E raw_text answer_prompt model idx question s))
            then [Sleep 1] else [])"
proof -
  let ?s1 = "logging INFO (u ''Processing Q&A pair '' @ str_nat idx @ u ''...'') s"
  obtain a s2 where
    a: "generate_answer_for_question E raw_text question answer_prompt model ?s1 = (a, s2)"
    by (cases "generate_answer_for_question E raw_text question answer_prompt model ?s1")
  have s2: "filter is_sleep (trace s2) = filter is_sleep (trace s)"
    using generate_answer_for_question_sleeps
      [of E raw_text question answer_prompt model ?s1] a
    by simp
  show ?thesis
  proof (cases a)
    case None
    then show ?thesis
      using a s2 by (simp add: qa_step_def)
  next
    case (Some answer_text)
    obtain x s3 where x: "extract_answer_details E answer_text question model s2 = (x, s3)"
      by (cases "extract_answer_details E answer_text question model s2")
    have s3: "filter is_sleep (trace s3) = filter is_sleep (trace s)"
      using extract_answer_details_sleeps [of E answer_text question model s2] x s2
      by simp
    show ?thesis
      using Some a s2 x s3 by (cases x) (simp_all add: qa_step_def)
  qed
qed

lemma qa_loop_pairs:
  "fst (qa_loop E raw_text answer_prompt model idx qs qa s)
     = qa @ pairs_of (qa_outcomes E raw_text answer_prompt model idx qs s)"
proof (induction qs arbitrary: idx qa s)
  case Nil
  show ?case by simp
next
  case (Cons q qs)
  show ?case
    by (simp add: Cons.IH split: prod.splits outcome.splits)
qed

lemma qa_loop_sleeps:
  "filter is_sleep (trace (snd (qa_loop E raw_text answer_prompt model idx qs qa s)))
     = filter is_sleep (trace s)
         @ replicate (length (pairs_of (qa_outcomes E raw_text answer_prompt model idx qs s)))
             (Sleep 1)"
proof (induction qs arbitrary: idx qa s)
  case Nil
  show ?case by simp
next
  case (Cons q qs)
  obtain r s' where step: "qa_step E raw_text answer_prompt model idx q s = (r, s')"
    by (cases "qa_step E raw_text answer_prompt model idx q s")
  have s': "filter is_sleep (trace s')
      = filter is_sleep (trace s) @ (if is_paired r then [Sleep 1] else [])"
    using qa_step_sleeps [of E raw_text answer_prompt model idx q s] step by simp
  show ?case
    by (cases r) (simp_all add: step s' Cons.IH replicate_app_Cons_same)
qed

lemma qa_outcomes_length [simp]:
  "length (qa_outcomes E raw_text answer_prompt model idx qs s) = length qs"
  by (induction qs arbitrary: idx s) (simp_all split: prod.splits)

text \<open>
  C8, as the code has it. \<open>time.sleep(1)\<close> is the last statement of the loop body and both
  \<open>continue\<close> statements jump over it: an iteration sleeps once, for 1 second, when it has
  appended a pair, and not at all when it has skipped its question. Over a run of the loop
  there are as many sleeps as pairs were assembled.
\<close>

theorem sleep_follows_assembled_pair_only:
  "filter is_sleep (trace (snd (qa_step E raw_text answer_prompt model idx question s)))
     = filter is_sleep (trace s)
         @ (if is_paired (fst (qa_step E raw_text answer_prompt model idx question s))
            then [Sleep 1] else [])
   \<and> filter is_sleep (trace (snd (qa_loop E raw_text answer_prompt model idx qs qa s)))
     = filter is_sleep (trace s)
         @ replicate (length (pairs_of (qa_outcomes E raw_text answer_prompt model idx qs s)))
             (Sleep 1)"
  by (simp only: qa_step_sleeps qa_loop_sleeps simp_thms)








lemma generate_final_qna_container_eq:
  assumes "generate_bulk_questions E raw_text question_prompt 20 model s = (Some qs, s1)"
    and "qs \<noteq> []"
  shows "generate_final_qna_container E container_id raw_text question_prompt answer_prompt
           num_pairs model s
         = (let s2 = logging INFO (generated_message (length qs)) s1;
                qa = pairs_of (qa_outcomes E raw_text answer_prompt model 1 qs s2);
                s3 = snd (qa_loop E raw_text answer_prompt model 1 qs [] s2)
            in (Some (json_dumps E
                  (final_container container_id question_prompt answer_prompt qa)),
                if int (length qa) \<noteq> num_pairs
                then logging WARNING (count_warning num_pairs (length qa)) s3 else s3))"
proof -
  let ?s2 = "logging INFO (generated_message (length qs)) s1"
  obtain qa s3 where loop: "qa_loop E raw_text answer_prompt model 1 qs [] ?s2 = (qa, s3)"
    by (cases "qa_loop E raw_text answer_prompt model 1 qs [] ?s2")
  have "qa = pairs_of (qa_outcomes E raw_text answer_prompt model 1 qs ?s2)"
    using qa_loop_pairs [of E raw_text answer_prompt model 1 qs "[]" ?s2] loop by simp
  then show ?thesis
    using assms loop by (simp add: generate_final_qna_container_def Let_def)
qed

section \<open>The pairs a run of the loop assembles\<close>




lemma qa_replies_length [simp]:
  "length (qa_replies E raw_text answer_prompt model idx qs s) = length qs"
  by (induction qs arbitrary: idx s) simp_all





section \<open>A job with one failed extraction\<close>


section \<open>The scripted run\<close>

lemma mock_env_fields:
  "chat_create (mock_env p) = mock_chat"
  "json_loads (mock_env p) = mock_loads"
  "json_dumps (mock_env p) = mock_dumps"
  "requests_post (mock_env p) = mock_post p"
  by (simp_all add: mock_env_def)

lemma an_answer_clean:
  "strip (u ''An answer.'') = u ''An answer.''"
  "u ''An answer.'' \<noteq> []"
  by (simp_all add: strip_def isspace_def whitespace_def u_def)

lemma details_text_clean:
  "strip details_text = details_text"
  "strip_fence details_text = details_text"
  "details_text \<noteq> []"
  by (simp_all add: strip_fence_def strip_def startswith_def endswith_def isspace_def
      whitespace_def u_def details_text_def)

lemma two_facets_text_clean:
  "strip two_facets_text = two_facets_text"
  "strip_fence two_facets_text = two_facets_text"
  "two_facets_text \<noteq> []"
  by (simp_all add: strip_fence_def strip_def startswith_def endswith_def isspace_def
      whitespace_def u_def two_facets_text_def)

lemma questions20_text_clean: "cleaned questions20_text = questions20_text"
  by (simp add: cleaned_def strip_fence_def strip_def startswith_def endswith_def isspace_def
      whitespace_def u_def questions20_text_def)

lemma loads_questions20: "mock_loads questions20_text = Inr (JArr questions20)"
  by (simp add: mock_loads_def)

lemma loads_details: "mock_loads details_text = Inr (JObj details)"
  by (simp add: mock_loads_def questions20_text_def two_text_def one_text_def three_text_def
      mixed_text_def details_text_def u_def)

lemma loads_two_facets: "mock_loads two_facets_text = Inr (JObj two_facets)"
  by (simp add: mock_loads_def questions20_text_def two_text_def one_text_def three_text_def
      mixed_text_def details_text_def two_facets_text_def u_def)

lemma details_fields:
  "dict_get details (u ''answers'') = JStr (u ''A.'')"
  "dict_get details (u ''facet'') = JArr [JStr (u ''f'')]"
  "dict_get details (u ''pros'') = JArr [JStr (u ''p1''), JStr (u ''p2''), JStr (u ''p3'')]"
  "dict_get details (u ''cons'') = JArr [JStr (u ''c1''), JStr (u ''c2'')]"
  "details \<noteq> []"
  by (simp_all add: details_def dict_get_def u_def)

lemma two_facets_fields:
  "dict_get two_facets (u ''facet'') = JArr [JStr (u ''f''), JStr (u ''g'')]"
  by (simp add: two_facets_def dict_get_def u_def)

lemma an_answer_nonempty_u: "u ''A.'' \<noteq> []"
  by (simp add: u_def)

lemma take_two:
  assumes "take 2 w = [a, b]"
  shows "\<exists>rest. w = a # b # rest"
proof (cases w)
  case Nil
  then show ?thesis using assms by simp
next
  case (Cons x xs)
  then show ?thesis
    using assms by (cases xs) (simp_all add: numeral_2_eq_2)
qed

lemma mock_step_answered:
  assumes "take 2 (world s) = answered"
  shows "fst (qa_step (mock_env p) raw_text answer_prompt model idx q s) = Paired (mock_pair q)"
    and "world (snd (qa_step (mock_env p) raw_text answer_prompt model idx q s))
           = drop 2 (world s)"
proof -
  obtain rest where w: "world s = Inr (u ''An answer.'') # Inr details_text # rest"
    using take_two [OF assms [unfolded answered_def]] by blast
  show "fst (qa_step (mock_env p) raw_text answer_prompt model idx q s) = Paired (mock_pair q)"
    by (simp add: qa_step_def generate_answer_for_question_def extract_answer_details_def
        call_chat_def mock_env_fields mock_chat_def w Let_def an_answer_clean
        details_text_clean loads_details details_fields an_answer_nonempty_u mock_pair_def)
  show "world (snd (qa_step (mock_env p) raw_text answer_prompt model idx q s))
          = drop 2 (world s)"
    by (simp add: qa_step_def generate_answer_for_question_def extract_answer_details_def
        call_chat_def mock_env_fields mock_chat_def w Let_def an_answer_clean
        details_text_clean loads_details details_fields an_answer_nonempty_u)
qed

lemma mock_step_not_extracted:
  assumes "take 2 (world s) = not_extracted"
  shows "fst (qa_step (mock_env p) raw_text answer_prompt model idx q s) = ExtractFailed"
    and "world (snd (qa_step (mock_env p) raw_text answer_prompt model idx q s))
           = drop 2 (world s)"
    and "filter is_sleep (trace (snd (qa_step (mock_env p) raw_text answer_prompt model idx q s)))
           = filter is_sleep (trace s)"
proof -
  obtain rest where w: "world s = Inr (u ''An answer.'') # Inr two_facets_text # rest"
    using take_two [OF assms [unfolded not_extracted_def]] by blast
  show "fst (qa_step (mock_env p) raw_text answer_prompt model idx q s) = ExtractFailed"
    by (simp add: qa_step_def generate_answer_for_question_def extract_answer_details_def
        extraction_error_def call_chat_def mock_env_fields mock_chat_def w Let_def
        an_answer_clean two_facets_text_clean loads_two_facets two_facets_fields)
  show "world (snd (qa_step (mock_env p) raw_text answer_prompt model idx q s))
          = drop 2 (world s)"
    by (simp add: qa_step_def generate_answer_for_question_def extract_answer_details_def
        extraction_error_def call_chat_def mock_env_fields mock_chat_def w Let_def
        an_answer_clean two_facets_text_clean loads_two_facets two_facets_fields)
  show "filter is_sleep (trace (snd (qa_step (mock_env p) raw_text answer_prompt model idx q s)))
          = filter is_sleep (trace s)"
    by (simp add: qa_step_def generate_answer_for_question_def extract_answer_details_def
        extraction_error_def call_chat_def mock_env_fields mock_chat_def w Let_def
        an_answer_clean two_facets_text_clean loads_two_facets two_facets_fields)
qed

lemma length_replies [simp]: "length answered = 2" "length not_extracted = 2"
  by (simp_all add: answered_def not_extracted_def)

lemma mock_outcomes_answered:
  "world s = concat (replicate (length qs) answered) @ rest
     \<Longrightarrow> qa_outcomes (mock_env p) raw_text answer_prompt model idx qs s
           = map (\<lambda>q. Paired (mock_pair q)) qs"
proof (induction qs arbitrary: idx s)
  case Nil
  show ?case by simp
next
  case (Cons q qs)
  let ?s' = "snd (qa_step (mock_env p) raw_text answer_prompt model idx q s)"
  have w: "world s = answered @ concat (replicate (length qs) answered) @ rest"
    using Cons.prems by simp
  have "fst (qa_step (mock_env p) raw_text answer_prompt model idx q s) = Paired (mock_pair q)"
    by (rule mock_step_answered) (simp add: w)
  moreover have "world ?s' = concat (replicate (length qs) answered) @ rest"
    using mock_step_answered(2) [of s p raw_text answer_prompt model idx q] by (simp add: w)
  ultimately show ?case
    using Cons.IH [of ?s' "Suc idx"] by (simp add: case_prod_unfold)
qed

lemma mock_outcomes_one_not_extracted:
  "world s = concat (replicate (length qs1) answered) @ not_extracted
              @ concat (replicate (length qs2) answered)
     \<Longrightarrow> qa_outcomes (mock_env p) raw_text answer_prompt model idx (qs1 @ q # qs2) s
           = map (\<lambda>q. Paired (mock_pair q)) qs1 @ [ExtractFailed]
               @ map (\<lambda>q. Paired (mock_pair q)) qs2"
proof (induction qs1 arbitrary: idx s)
  case Nil
  let ?s' = "snd (qa_step (mock_env p) raw_text answer_prompt model idx q s)"
  have w: "world s = not_extracted @ concat (replicate (length qs2) answered) @ []"
    using Nil by simp
  have "fst (qa_step (mock_env p) raw_text answer_prompt model idx q s) = ExtractFailed"
    by (rule mock_step_not_extracted) (simp add: w)
  moreover have "world ?s' = concat (replicate (length qs2) answered) @ []"
    using mock_step_not_extracted(2) [of s p raw_text answer_prompt model idx q]
    by (simp add: w)
  ultimately show ?case
    using mock_outcomes_answered [of ?s' qs2 "[]" p raw_text answer_prompt model "Suc idx"]
    by (simp add: case_prod_unfold)
next
  case (Cons q1 qs1)
  let ?s' = "snd (qa_step (mock_env p) raw_text answer_prompt model idx q1 s)"
  have w: "world s = answered @ concat (replicate (length qs1) answered) @ not_extracted
      @ concat (replicate (length qs2) answered)"
    using Cons.prems by simp
  have "fst (qa_step (mock_env p) raw_text answer_prompt model idx q1 s)
      = Paired (mock_pair q1)"
    by (rule mock_step_answered) (simp add: w)
  moreover have "world ?s' = concat (replicate (length qs1) answered) @ not_extracted
      @ concat (replicate (length qs2) answered)"
    using mock_step_answered(2) [of s p raw_text answer_prompt model idx q1] by (simp add: w)
  ultimately show ?case
    using Cons.IH [of ?s' "Suc idx"] by (simp add: case_prod_unfold)
qed

lemma questions20_split:
  "take 4 questions20 @ JStr (u ''Q5?'') # drop 5 questions20 = questions20"
  by (simp add: questions20_def)

lemma questions20_lengths:
  "length (take 4 questions20) = 4"
  "length (drop 5 questions20) = 15"
  by (simp_all add: questions20_def)

lemma mock_outcomes_q5:
  assumes "world s = tl script_q5"
  shows "qa_outcomes (mock_env p) raw_text answer_prompt model 1 questions20 s = outcomes_q5"
proof -
  have "world s = concat (replicate (length (take 4 questions20)) answered) @ not_extracted
      @ concat (replicate (length (drop 5 questions20)) answered)"
    using assms by (simp only: questions20_lengths script_q5_def list.sel)
  from mock_outcomes_one_not_extracted [OF this, of p raw_text answer_prompt model 1
      "JStr (u ''Q5?'')"]
  show ?thesis
    by (simp only: questions20_split outcomes_q5_def)
qed







section \<open>The claims on the scripted run\<close>

lemma world_generate_bulk_questions:
  "world (snd (generate_bulk_questions E raw_text question_prompt n model s))
     = snd (chat_create E (questions_request raw_text question_prompt n model) (world s))"
  by (simp add: generate_bulk_questions_def call_chat_eq Let_def
      split: sum.splits json.splits)

lemma mock_questions_q5:
  "generate_bulk_questions (mock_env p) raw_text question_prompt 20 model (mock_io script_q5)
     = (Some questions20,
        snd (generate_bulk_questions (mock_env p) raw_text question_prompt 20 model
               (mock_io script_q5)))"
proof -
  have "fst (generate_bulk_questions (mock_env p) raw_text question_prompt 20 model
          (mock_io script_q5)) = Some questions20"
    unfolding generate_bulk_questions_Some
    by (simp add: mock_env_fields mock_chat_def mock_io_def script_q5_def
        questions20_text_clean loads_questions20)
       (simp add: questions20_def)
  then show ?thesis
    by (simp add: prod_eq_iff)
qed

lemma mock_world_q5:
  "world (logging lv msg
       (snd (generate_bulk_questions (mock_env p) raw_text question_prompt 20 model
               (mock_io script_q5)))) = tl script_q5"
  by (simp add: world_generate_bulk_questions mock_env_fields mock_chat_def mock_io_def
      script_q5_def)

lemma outcomes_q5_facts:
  "outcomes_q5 ! 4 = ExtractFailed"
  "list_all is_paired (take 4 outcomes_q5 @ drop (Suc 4) outcomes_q5)"
  "length (pairs_of outcomes_q5) = 19"
  by (simp_all add: outcomes_q5_def questions20_def)

lemma mock_dumps_container:
  "mock_dumps (final_container container_id question_prompt answer_prompt qa)
     = u ''{\"pairs\": '' @ str_nat (length qa) @ u ''}''"
  by (simp add: mock_dumps_def final_container_def)

lemma mock_dumps_19:
  "length qa = 19 \<Longrightarrow>
     mock_dumps (final_container container_id question_prompt answer_prompt qa)
       = u ''{\"pairs\": 19}''"
  by (simp add: mock_dumps_container str_nat.simps u_def)


theorem failed_delivery_keeps_job_completed_witness:
  "jobs (process_qna_job (mock_env (Inr 500)) (u ''job-1'') (u ''ctx'') (u ''sys'') (u ''ans'')
           (mock_server script_q5)) (u ''job-1'')
     = Some \<lparr>status = u ''completed'', result = Some (u ''{\"pairs\": 19}'')\<rparr>
   \<and> last (trace (outside
         (process_qna_job (mock_env (Inr 500)) (u ''job-1'') (u ''ctx'') (u ''sys'') (u ''ans'')
           (mock_server script_q5))))
     = Log ERROR (u ''Failed to push Q&A container for job job-1. Status: 500'')"
proof -
  let ?E = "mock_env (Inr 500)"
  let ?sv = "mock_server script_q5"
  let ?s1 = "snd (generate_bulk_questions ?E (u ''ctx'') (u ''sys'') 20 (u ''gpt-4'')
                   (mock_io script_q5))"
  let ?json = "u ''{\"pairs\": 19}''"
  have gen: "generate_bulk_questions ?E (u ''ctx'') (u ''sys'') 20 (u ''gpt-4'') (outside ?sv)
      = (Some questions20, ?s1)"
    using mock_questions_q5 [of "Inr 500" "u ''ctx''" "u ''sys''" "u ''gpt-4''"]
    by (simp add: mock_server_def)
  have ne: "questions20 \<noteq> []"
    by (simp add: questions20_def)
  have os: "qa_outcomes ?E (u ''ctx'') (u ''ans'') (u ''gpt-4'') 1 questions20
      (logging INFO (generated_message (length questions20)) ?s1) = outcomes_q5"
    by (rule mock_outcomes_q5) (rule mock_world_q5)
  note c = generate_final_qna_container_eq
    [OF gen ne, of "u ''job-1''" "u ''ans''" 20, unfolded Let_def os]
  have j: "json_dumps ?E (final_container (u ''job-1'') (u ''sys'') (u ''ans'')
      (pairs_of outcomes_q5)) = ?json"
    by (simp add: mock_env_fields mock_dumps_19 outcomes_q5_facts(3))
  obtain s4 where container: "generate_final_qna_container ?E (u ''job-1'') (u ''ctx'')
      (u ''sys'') (u ''ans'') 20 (u ''gpt-4'') (outside ?sv) = (Some ?json, s4)"
    using c [unfolded j] by (rule that)
  have json: "?json \<noteq> []"
    by (simp add: u_def)
  have post: "requests_post ?E (target_api_url ?E) ?json
      [(u ''Content-Type'', u ''application/json'')] (world s4) = (Inr 500, world s4)"
    by (simp add: mock_env_fields mock_post_def)
  have failure: "(\<exists>e. (Inr 500 :: str + int) = Inl e)
      \<or> (\<exists>c. (Inr 500 :: str + int) = Inr c \<and> (c < 200 \<or> 299 < c))"
    by simp
  have message: "push_failed_message (u ''job-1'') 500
      = u ''Failed to push Q&A container for job job-1. Status: 500''"
    by (simp add: push_failed_message_def str_int_def str_nat.simps u_def)
  from failed_delivery_keeps_job_completed [OF container json post failure]
  show ?thesis
    by (simp add: message)
qed



text \<open>
  C8, as the claim states it, fails: in a run of the loop over two questions in which the
  extraction of the second one fails, both questions are processed and there is one sleep,
  after the first question; the skipped question is followed by none.
\<close>

theorem skipped_question_is_followed_by_no_sleep:
  "qa_outcomes (mock_env (Inr 200)) (u ''ctx'') (u ''ans'') (u ''gpt-4'') 4
       [JStr (u ''Q4?''), JStr (u ''Q5?'')] (mock_io (answered @ not_extracted))
     = [Paired (mock_pair (JStr (u ''Q4?''))), ExtractFailed]
   \<and> filter is_sleep (trace (snd
         (qa_loop (mock_env (Inr 200)) (u ''ctx'') (u ''ans'') (u ''gpt-4'') 4
            [JStr (u ''Q4?''), JStr (u ''Q5?'')] [] (mock_io (answered @ not_extracted)))))
     = [Sleep 1]
   \<and> filter is_sleep (trace (snd
         (qa_loop (mock_env (Inr 200)) (u ''ctx'') (u ''ans'') (u ''gpt-4'') 4
            [JStr (u ''Q4?''), JStr (u ''Q5?'')] [] (mock_io (answered @ not_extracted)))))
     \<noteq> replicate (length [JStr (u ''Q4?''), JStr (u ''Q5?'')]) (Sleep 1)"
proof -
  have w: "world (mock_io (answered @ not_extracted))
      = concat (replicate (length [JStr (u ''Q4?'')]) answered) @ not_extracted
          @ concat (replicate (length ([] :: json list)) answered)"
    by (simp add: mock_io_def)
  have os: "qa_outcomes (mock_env (Inr 200)) (u ''ctx'') (u ''ans'') (u ''gpt-4'') 4
       [JStr (u ''Q4?''), JStr (u ''Q5?'')] (mock_io (answered @ not_extracted))
     = [Paired (mock_pair (JStr (u ''Q4?''))), ExtractFailed]"
    using mock_outcomes_one_not_extracted [OF w, of "Inr 200" "u ''ctx''" "u ''ans''"
        "u ''gpt-4''" 4 "JStr (u ''Q5?'')"]
    by simp
  have "filter is_sleep (trace (snd
         (qa_loop (mock_env (Inr 200)) (u ''ctx'') (u ''ans'') (u ''gpt-4'') 4
            [JStr (u ''Q4?''), JStr (u ''Q5?'')] [] (mock_io (answered @ not_extracted)))))
     = [Sleep 1]"
    using qa_loop_sleeps [of "mock_env (Inr 200)" "u ''ctx''" "u ''ans''" "u ''gpt-4''" 4
        "[JStr (u ''Q4?''), JStr (u ''Q5?'')]" "[]" "mock_io (answered @ not_extracted)",
        unfolded os]
    by (simp add: mock_io_def del: qa_loop.simps)
  with os show ?thesis
    by (simp del: qa_loop.simps qa_outcomes.simps)
qed

theorem extract_answer_details_Some_iff_witness:
  "fst (extract_answer_details (mock_env (Inr 200)) (u ''An answer.'') (JStr (u ''Q1?''))
          (u ''gpt-4'') (mock_io [Inr details_text])) = Some details
   \<and> fst (extract_answer_details (mock_env (Inr 200)) (u ''An answer.'') (JStr (u ''Q1?''))
          (u ''gpt-4'') (mock_io [Inr two_facets_text])) \<noteq> Some two_facets"
  by (simp add: extract_answer_details_Some_iff mock_chat_def mock_io_def cleaned_def
      details_text_clean two_facets_text_clean mock_env_fields loads_details
      loads_two_facets details_fields two_facets_fields an_answer_nonempty_u)

theorem sleep_follows_assembled_pair_only_witness:
  "filter is_sleep (trace (snd
       (qa_step (mock_env (Inr 200)) (u ''ctx'') (u ''ans'') (u ''gpt-4'') 4
          (JStr (u ''Q4?'')) (mock_io answered)))) = [Sleep 1]
   \<and> filter is_sleep (trace (snd
       (qa_step (mock_env (Inr 200)) (u ''ctx'') (u ''ans'') (u ''gpt-4'') 5
          (JStr (u ''Q5?'')) (mock_io not_extracted)))) = []"
proof -
  have a: "fst (qa_step (mock_env (Inr 200)) (u ''ctx'') (u ''ans'') (u ''gpt-4'') 4
      (JStr (u ''Q4?'')) (mock_io answered)) = Paired (mock_pair (JStr (u ''Q4?'')))"
    by (rule mock_step_answered) (simp add: mock_io_def)
  have b: "fst (qa_step (mock_env (Inr 200)) (u ''ctx'') (u ''ans'') (u ''gpt-4'') 5
      (JStr (u ''Q5?'')) (mock_io not_extracted)) = ExtractFailed"
    by (rule mock_step_not_extracted) (simp add: mock_io_def)
  have "filter is_sleep (trace (snd
       (qa_step (mock_env (Inr 200)) (u ''ctx'') (u ''ans'') (u ''gpt-4'') 4
          (JStr (u ''Q4?'')) (mock_io answered)))) = [Sleep 1]"
    using sleep_follows_assembled_pair_only [THEN conjunct1,
        of "mock_env (Inr 200)" "u ''ctx''" "u ''ans''" "u ''gpt-4''" 4 "JStr (u ''Q4?'')"
           "mock_io answered", unfolded a]
    by (simp add: mock_io_def)
  moreover have "filter is_sleep (trace (snd
       (qa_step (mock_env (Inr 200)) (u ''ctx'') (u ''ans'') (u ''gpt-4'') 5
          (JStr (u ''Q5?'')) (mock_io not_extracted)))) = []"
    using sleep_follows_assembled_pair_only [THEN conjunct1,
        of "mock_env (Inr 200)" "u ''ctx''" "u ''ans''" "u ''gpt-4''" 5 "JStr (u ''Q5?'')"
           "mock_io not_extracted", unfolded b]
    by (simp add: mock_io_def)
  ultimately show ?thesis by simp
qed

end
